theory Spec2Isabelle
  imports Main "HOL-Library.Sublist" "HOL-Library.Word"
begin

section \<open>The macro-indicators client (macro\_indicators/api.py)\<close>

text \<open>
  The module is one request helper, \<^verbatim>\<open>_get\<close>, its detail extractor
  \<^verbatim>\<open>_extract_detail\<close>, three exception classes and five public functions that call
  the helper. An Isabelle name cannot start with an underscore, so the two private helpers
  are \<open>api_get\<close> and \<open>api_extract_detail\<close>, and the two module constants are
  \<open>BASE_URL\<close> and \<open>TIMEOUT\<close>. Strings are \<open>string\<close>: the model reads a
  character as the code point of the same number, so it covers texts over U+0000..U+00FF.
\<close>

subsection \<open>Python values\<close>

text \<open>
  What \<^verbatim>\<open>resp.json()\<close> can return, and what the functions return (\<^verbatim>\<open>Any\<close>):
  None, a bool, an int, a float (its 64-bit pattern; the client never computes with it),
  a str, a list, or a dict with string keys in insertion order.
\<close>

datatype pyvalue =
    PyNone
  | PyBool bool
  | PyInt int
  | PyFloat "64 word"
  | PyStr string
  | PyList "pyvalue list"
  | PyDict "(string \<times> pyvalue) list"

text \<open>
  \<^verbatim>\<open>str(v)\<close>: a str is returned as it is; for every other value of the types above
  \<^verbatim>\<open>str\<close> is \<^verbatim>\<open>repr\<close>, a builtin of the interpreter, taken as the parameter
  \<open>rpr\<close>.
\<close>

definition py_str :: "(pyvalue \<Rightarrow> string) \<Rightarrow> pyvalue \<Rightarrow> string" where
  "py_str rpr v = (case v of PyStr s \<Rightarrow> s | _ \<Rightarrow> rpr v)"

text \<open>\<^verbatim>\<open>str(n)\<close> of an int: its decimal digits, with a minus sign when negative.\<close>

definition digit_char :: "nat \<Rightarrow> char" where
  "digit_char d = char_of (of_char CHR ''0'' + d)"

function nat_str :: "nat \<Rightarrow> string" where
  "nat_str n = (if n < 10 then [digit_char n] else nat_str (n div 10) @ [digit_char (n mod 10)])"
  by pat_completeness auto
termination
  by (relation "measure (\<lambda>n. n)") auto

definition int_str :: "int \<Rightarrow> string" where
  "int_str i = (if i < 0 then CHR ''-'' # nat_str (nat (- i)) else nat_str (nat i))"

text \<open>
  \<^verbatim>\<open>s.strip()\<close>: drops the leading and the trailing whitespace, the characters for
  which \<^verbatim>\<open>str.isspace\<close> holds. Below U+0100 these are
  U+0009..U+000D, U+001C..U+0020, U+0085 and U+00A0.
\<close>

definition isspace :: "char \<Rightarrow> bool" where
  "isspace c = ((of_char c :: nat) \<in> {9, 10, 11, 12, 13, 28, 29, 30, 31, 32, 133, 160})"

definition strip :: "string \<Rightarrow> string" where
  "strip s = rev (dropWhile isspace (rev (dropWhile isspace s)))"

text \<open>\<^verbatim>\<open>a or b\<close> on strings: \<open>a\<close> unless it is empty.\<close>

definition str_or :: "string \<Rightarrow> string \<Rightarrow> string" where
  "str_or a b = (if a = [] then b else a)"

subsection \<open>Exceptions\<close>

text \<open>
  \<^verbatim>\<open>class MacroAPIError(RuntimeError)\<close>, \<^verbatim>\<open>class BadRequest(MacroAPIError)\<close>,
  \<^verbatim>\<open>class NotFound(MacroAPIError)\<close>. \<open>mro\<close> lists a class and its bases up to
  \<open>RuntimeError\<close>; \<open>issubclass\<close> is what an \<^verbatim>\<open>except\<close> clause tests.
\<close>

datatype pyclass = RuntimeError | MacroAPIError | BadRequest | NotFound

fun mro :: "pyclass \<Rightarrow> pyclass list" where
  "mro RuntimeError = [RuntimeError]"
| "mro MacroAPIError = [MacroAPIError, RuntimeError]"
| "mro BadRequest = [BadRequest, MacroAPIError, RuntimeError]"
| "mro NotFound = [NotFound, MacroAPIError, RuntimeError]"

definition issubclass :: "pyclass \<Rightarrow> pyclass \<Rightarrow> bool" where
  "issubclass c d = (d \<in> set (mro c))"

text \<open>
  An exception leaving \<^verbatim>\<open>_get\<close>. \<open>Raised c m s\<close> is an instance of class \<open>c\<close> built by
  \<^verbatim>\<open>MacroAPIError.__init__(message, status_code=s)\<close>: the message and the optional status
  code. \<open>JSONDecodeError m\<close> is the exception \<^verbatim>\<open>resp.json()\<close> raises for a body
  that is not JSON: \<^verbatim>\<open>requests.exceptions.JSONDecodeError\<close>, a class of the requests
  library with no \<^verbatim>\<open>status_code\<close>, which derives from \<^verbatim>\<open>ValueError\<close> and
  \<^verbatim>\<open>OSError\<close> and from none of the four classes above.
\<close>

datatype exn =
    Raised pyclass string "int option"
  | JSONDecodeError string

text \<open>
  \<^verbatim>\<open>except k:\<close> catches the exception, for \<open>k\<close> one of the four classes above: an
  instance of a class is caught by the class and its bases, a \<^verbatim>\<open>JSONDecodeError\<close> by
  none of the four.
\<close>

fun caught_by :: "pyclass \<Rightarrow> exn \<Rightarrow> bool" where
  "caught_by k (Raised c m s) = issubclass c k"
| "caught_by k (JSONDecodeError m) = False"

subsection \<open>The requests library: requests, responses, the network\<close>

text \<open>
  A \<^verbatim>\<open>requests.Response\<close> as the client observes it: \<^verbatim>\<open>status_code\<close>,
  \<^verbatim>\<open>headers\<close> (keyed by the lower-case header name), \<^verbatim>\<open>text\<close>, and the outcome
  of \<^verbatim>\<open>json()\<close>, which returns the decoded value or raises
  \<^verbatim>\<open>JSONDecodeError\<close> (\<open>Inl\<close>, with the decoder's message). A response whose
  \<^verbatim>\<open>json()\<close> raises anything else (\<^verbatim>\<open>RecursionError\<close> on a body nested
  beyond the interpreter's limit) is outside the model.
\<close>

record response =
  resp_status_code :: int
  resp_headers :: "string \<rightharpoonup> string"
  resp_text :: string
  resp_json :: "string + pyvalue"

text \<open>The arguments of \<^verbatim>\<open>requests.get(url, params=params, timeout=_TIMEOUT)\<close>.\<close>

record request =
  req_url :: string
  req_params :: "(string \<times> pyvalue) list option"
  req_timeout :: int

text \<open>
  The network is the parameter \<open>net\<close> of the functions below: it answers a request with a
  response, or with \<open>Inl e\<close> when \<^verbatim>\<open>requests.get\<close> raises a
  \<^verbatim>\<open>RequestException\<close> whose \<^verbatim>\<open>str\<close> is \<open>e\<close>.
\<close>

type_synonym network = "request \<Rightarrow> string + response"

text \<open>
  \<^verbatim>\<open>Response.raise_for_status()\<close> of the requests library raises \<^verbatim>\<open>HTTPError\<close>
  exactly for the client errors \<open>400 \<le> status_code < 500\<close> and the server errors
  \<open>500 \<le> status_code < 600\<close>.
\<close>

definition raise_for_status :: "response \<Rightarrow> bool" where
  "raise_for_status resp =
     ((400 \<le> resp_status_code resp \<and> resp_status_code resp < 500) \<or>
      (500 \<le> resp_status_code resp \<and> resp_status_code resp < 600))"

text \<open>\<^verbatim>\<open>resp.headers.get("content-type", "")\<close>.\<close>

definition content_type :: "response \<Rightarrow> string" where
  "content_type resp =
     (case resp_headers resp ''content-type'' of None \<Rightarrow> [] | Some v \<Rightarrow> v)"

subsection \<open>The module\<close>

definition BASE_URL :: string where
  "BASE_URL = ''https://macro-indicators.fly.dev''"

definition TIMEOUT :: int where
  "TIMEOUT = 30"

text \<open>
  \<^verbatim>\<open>_extract_detail\<close>: the \<^verbatim>\<open>detail\<close> of a JSON dict when the content type
  contains \<^verbatim>\<open>application/json\<close>; any exception of \<^verbatim>\<open>resp.json()\<close> is passed
  over; then the stripped text, or \<^verbatim>\<open>HTTP <status_code>\<close>.
\<close>

definition api_extract_detail :: "(pyvalue \<Rightarrow> string) \<Rightarrow> response \<Rightarrow> string" where
  "api_extract_detail rpr resp =
     (let ctype = content_type resp;
          fallback = str_or (strip (str_or (resp_text resp) [])) (''HTTP '' @ int_str (resp_status_code resp))
      in if sublist ''application/json'' ctype then
           (case resp_json resp of
              Inl e \<Rightarrow> fallback
            | Inr js \<Rightarrow>
                (case js of
                   PyDict kvs \<Rightarrow>
                     (case map_of kvs ''detail'' of
                        Some d \<Rightarrow> py_str rpr d
                      | None \<Rightarrow> fallback)
                 | _ \<Rightarrow> fallback))
         else fallback)"

text \<open>
  \<^verbatim>\<open>_get\<close>: one GET; a transport failure, status 400, status 404 and a status for
  which \<^verbatim>\<open>raise_for_status\<close> raises each raise their exception; otherwise the JSON
  value when the content type starts with \<^verbatim>\<open>application/json\<close> (the call of
  \<^verbatim>\<open>resp.json()\<close> stands in no \<^verbatim>\<open>try\<close>, so its exception leaves the function),
  else the dict \<^verbatim>\<open>{"raw": resp.text}\<close>.
\<close>

definition api_get ::
  "(pyvalue \<Rightarrow> string) \<Rightarrow> network \<Rightarrow> string \<Rightarrow> (string \<times> pyvalue) list option \<Rightarrow> exn + pyvalue" where
  "api_get rpr net path params =
     (let url = BASE_URL @ path
      in case net \<lparr>req_url = url, req_params = params, req_timeout = TIMEOUT\<rparr> of
           Inl e \<Rightarrow> Inl (Raised MacroAPIError (''Network error calling '' @ url @ '': '' @ e) None)
         | Inr resp \<Rightarrow>
             if resp_status_code resp = 400 then
               Inl (Raised BadRequest (api_extract_detail rpr resp) (Some 400))
             else if resp_status_code resp = 404 then
               Inl (Raised NotFound (api_extract_detail rpr resp) (Some 404))
             else if raise_for_status resp then
               Inl (Raised MacroAPIError (api_extract_detail rpr resp) (Some (resp_status_code resp)))
             else if prefix ''application/json'' (content_type resp) then
               (case resp_json resp of
                  Inl e \<Rightarrow> Inl (JSONDecodeError e)
                | Inr js \<Rightarrow> Inr js)
             else Inr (PyDict [(''raw'', PyStr (resp_text resp))]))"

definition root :: "(pyvalue \<Rightarrow> string) \<Rightarrow> network \<Rightarrow> exn + pyvalue" where
  "root rpr net = api_get rpr net ''/'' None"

definition get_country_codes :: "(pyvalue \<Rightarrow> string) \<Rightarrow> network \<Rightarrow> exn + pyvalue" where
  "get_country_codes rpr net = api_get rpr net ''/country-codes'' None"

definition get_countries_with_names :: "(pyvalue \<Rightarrow> string) \<Rightarrow> network \<Rightarrow> exn + pyvalue" where
  "get_countries_with_names rpr net = api_get rpr net ''/countries'' None"

definition get_indicators :: "(pyvalue \<Rightarrow> string) \<Rightarrow> network \<Rightarrow> exn + pyvalue" where
  "get_indicators rpr net = api_get rpr net ''/indicators'' None"

definition get_country_data ::
  "(pyvalue \<Rightarrow> string) \<Rightarrow> network \<Rightarrow> string \<Rightarrow> string \<Rightarrow> int \<Rightarrow> int \<Rightarrow> exn + pyvalue" where
  "get_country_data rpr net country_code indicator start_year end_year =
     api_get rpr net ''/data''
       (Some [(''country_code'', PyStr country_code),
              (''indicator'', PyStr indicator),
              (''start_year'', PyInt start_year),
              (''end_year'', PyInt end_year)])"

subsection \<open>Notions used to state the properties\<close>

text \<open>
  The class of the failure of the module's own hierarchy that a call raised, if it raised
  one: \<open>None\<close> for a returned value and for the decoder's exception. So \<open>None\<close> says
  that no instance of the three classes was raised, not that the call returned.
\<close>

fun failure_kind :: "exn + pyvalue \<Rightarrow> pyclass option" where
  "failure_kind (Inl (Raised c m s)) = Some c"
| "failure_kind (Inl (JSONDecodeError m)) = None"
| "failure_kind (Inr v) = None"

text \<open>The one request \<^verbatim>\<open>_get\<close> sends for a path and its parameters.\<close>

definition request_of :: "string \<Rightarrow> (string \<times> pyvalue) list option \<Rightarrow> request" where
  "request_of path params =
     \<lparr>req_url = ''https://macro-indicators.fly.dev'' @ path, req_params = params, req_timeout = 30\<rparr>"

text \<open>
  Lines 63 to 65 of \<^verbatim>\<open>_get\<close> on their own, the decoding of a response that raised
  nothing: what \<^verbatim>\<open>resp.json()\<close> gives when the content type starts with
  \<^verbatim>\<open>application/json\<close>, its exception included, else the \<^verbatim>\<open>raw\<close> wrapper.
\<close>

definition decoded :: "response \<Rightarrow> exn + pyvalue" where
  "decoded resp =
     (if prefix ''application/json'' (content_type resp) then
        (case resp_json resp of Inl e \<Rightarrow> Inl (JSONDecodeError e) | Inr js \<Rightarrow> Inr js)
      else Inr (PyDict [(''raw'', PyStr (resp_text resp))]))"

subsection \<open>Inputs for the instances\<close>

text \<open>
  A response with the given status code, content type header (or none), text and
  \<^verbatim>\<open>json()\<close> outcome; a network that gives one response to every request, one that
  gives it to one request only, and one that fails; and a \<^verbatim>\<open>repr\<close> for instances
  where the detail is a str or absent, so that \<^verbatim>\<open>repr\<close> is not called.
\<close>

definition http_response :: "int \<Rightarrow> string option \<Rightarrow> string \<Rightarrow> string + pyvalue \<Rightarrow> response" where
  "http_response code ctype body js =
     \<lparr>resp_status_code = code,
      resp_headers = (case ctype of None \<Rightarrow> Map.empty | Some c \<Rightarrow> [''content-type'' \<mapsto> c]),
      resp_text = body,
      resp_json = js\<rparr>"

definition answers :: "response \<Rightarrow> network" where
  "answers resp = (\<lambda>req. Inr resp)"

definition answers_only :: "request \<Rightarrow> response \<Rightarrow> network" where
  "answers_only rq resp = (\<lambda>req. if req = rq then Inr resp else Inl ''no route'')"

definition unreachable :: "string \<Rightarrow> network" where
  "unreachable e = (\<lambda>req. Inl e)"

definition unused_repr :: "pyvalue \<Rightarrow> string" where
  "unused_repr v = []"

section \<open>Properties\<close>

subsection \<open>Shared lemmas\<close>

lemma request_of_eq:
  "\<lparr>req_url = BASE_URL @ path, req_params = params, req_timeout = TIMEOUT\<rparr> = request_of path params"
  by (simp add: request_of_def BASE_URL_def TIMEOUT_def)

lemma api_get_response:
  assumes "net (request_of path params) = Inr resp"
  shows "api_get rpr net path params =
     (if resp_status_code resp = 400 then
        Inl (Raised BadRequest (api_extract_detail rpr resp) (Some 400))
      else if resp_status_code resp = 404 then
        Inl (Raised NotFound (api_extract_detail rpr resp) (Some 404))
      else if 400 \<le> resp_status_code resp \<and> resp_status_code resp < 600 then
        Inl (Raised MacroAPIError (api_extract_detail rpr resp) (Some (resp_status_code resp)))
      else decoded resp)"
  using assms
  by (simp add: api_get_def Let_def request_of_eq raise_for_status_def decoded_def)

lemma api_get_transport:
  assumes "net (request_of path params) = Inl e"
  shows "api_get rpr net path params =
     Inl (Raised MacroAPIError (''Network error calling '' @ BASE_URL @ path @ '': '' @ e) None)"
  using assms by (simp add: api_get_def Let_def request_of_eq)

lemma failure_kind_decoded: "failure_kind (decoded resp) = None"
  by (simp add: decoded_def split: sum.splits)

lemma fallback_eq:
  "str_or (strip (str_or t [])) h = (if strip t = [] then h else strip t)"
  by (simp add: str_or_def)

lemma extract_detail_found:
  assumes "sublist ''application/json'' (content_type resp)"
    and "resp_json resp = Inr (PyDict kvs)"
    and "map_of kvs ''detail'' = Some d"
  shows "api_extract_detail rpr resp = py_str rpr d"
  using assms by (simp add: api_extract_detail_def Let_def)

lemma extract_detail_fallback:
  assumes "\<not> (sublist ''application/json'' (content_type resp) \<and>
              (\<exists>kvs d. resp_json resp = Inr (PyDict kvs) \<and> map_of kvs ''detail'' = Some d))"
  shows "api_extract_detail rpr resp =
     (if strip (resp_text resp) = [] then ''HTTP '' @ int_str (resp_status_code resp)
      else strip (resp_text resp))"
proof (cases "sublist ''application/json'' (content_type resp)")
  case False
  then show ?thesis
    by (simp add: api_extract_detail_def Let_def fallback_eq)
next
  case True
  with assms have none: "\<And>kvs d. resp_json resp = Inr (PyDict kvs) \<Longrightarrow> map_of kvs ''detail'' \<noteq> Some d"
    by blast
  show ?thesis
  proof (cases "resp_json resp")
    case (Inl e)
    with True show ?thesis
      by (simp add: api_extract_detail_def Let_def fallback_eq)
  next
    case (Inr js)
    show ?thesis
    proof (cases js)
      case (PyDict kvs)
      with Inr none have "map_of kvs ''detail'' = None"
        by (cases "map_of kvs ''detail''") auto
      with True Inr PyDict show ?thesis
        by (simp add: api_extract_detail_def Let_def fallback_eq)
    qed (use True Inr in \<open>simp_all add: api_extract_detail_def Let_def fallback_eq\<close>)
  qed
qed

subsection \<open>C1: the status code decides the failure\<close>

text \<open>
  C1, as the code has it. For a response that arrived: status 400 raises
  \<open>BadRequest\<close> with status code 400, status 404 raises \<open>NotFound\<close> with status code
  404, every other status from 400 to 599 raises the base \<open>MacroAPIError\<close> with the
  status itself, each with the extracted detail as its message; every remaining status,
  that is below 400 (1xx as well as 2xx and 3xx) or from 600 on, raises no failure of the
  hierarchy and goes on to the decoding.
\<close>

theorem get_status_classes:
  assumes "net (request_of path params) = Inr resp"
  shows "(resp_status_code resp = 400 \<longrightarrow>
            api_get rpr net path params =
              Inl (Raised BadRequest (api_extract_detail rpr resp) (Some 400)))
       \<and> (resp_status_code resp = 404 \<longrightarrow>
            api_get rpr net path params =
              Inl (Raised NotFound (api_extract_detail rpr resp) (Some 404)))
       \<and> (400 < resp_status_code resp \<and> resp_status_code resp < 600 \<and>
            resp_status_code resp \<noteq> 404 \<longrightarrow>
            api_get rpr net path params =
              Inl (Raised MacroAPIError (api_extract_detail rpr resp) (Some (resp_status_code resp))))
       \<and> (resp_status_code resp < 400 \<or> 600 \<le> resp_status_code resp \<longrightarrow>
            api_get rpr net path params = decoded resp \<and>
            failure_kind (api_get rpr net path params) = None)"
  using api_get_response [of net path params resp rpr] assms
  by (simp add: failure_kind_decoded)

text \<open>
  The instances: a 400 and a 404 with a body of text, a 503, and a 204 with no content
  type.
\<close>

theorem get_status_classes_witness:
  "api_get unused_repr (answers (http_response 400 None ''bad years'' (Inl ''no json''))) ''/data'' None
     = Inl (Raised BadRequest ''bad years'' (Some 400))
   \<and> api_get unused_repr (answers (http_response 404 None ''no such country'' (Inl ''no json''))) ''/data'' None
     = Inl (Raised NotFound ''no such country'' (Some 404))
   \<and> api_get unused_repr (answers (http_response 503 None ''down'' (Inl ''no json''))) ''/data'' None
     = Inl (Raised MacroAPIError ''down'' (Some 503))
   \<and> api_get unused_repr (answers (http_response 204 None [] (Inl ''no json''))) ''/data'' None
     = Inr (PyDict [(''raw'', PyStr [])])"
proof -
  let ?r400 = "http_response 400 None ''bad years'' (Inl ''no json'')"
  let ?r404 = "http_response 404 None ''no such country'' (Inl ''no json'')"
  let ?r503 = "http_response 503 None ''down'' (Inl ''no json'')"
  let ?r204 = "http_response 204 None [] (Inl ''no json'')"
  have ev: "api_extract_detail unused_repr ?r400 = ''bad years''"
    "api_extract_detail unused_repr ?r404 = ''no such country''"
    "api_extract_detail unused_repr ?r503 = ''down''"
    "decoded ?r204 = Inr (PyDict [(''raw'', PyStr [])])"
    by (simp_all add: api_extract_detail_def decoded_def http_response_def content_type_def
        str_or_def strip_def isspace_def)
  have st: "resp_status_code ?r400 = 400" "resp_status_code ?r404 = 404"
    "resp_status_code ?r503 = 503" "resp_status_code ?r204 = 204"
    by (simp_all add: http_response_def)
  have a: "answers r (request_of ''/data'' None) = Inr r" for r
    by (simp add: answers_def)
  show ?thesis
    using get_status_classes [of "answers ?r400" "''/data''" None ?r400 unused_repr, OF a]
      get_status_classes [of "answers ?r404" "''/data''" None ?r404 unused_repr, OF a]
      get_status_classes [of "answers ?r503" "''/data''" None ?r503 unused_repr, OF a]
      get_status_classes [of "answers ?r204" "''/data''" None ?r204 unused_repr, OF a]
    by (simp add: ev st)
qed

text \<open>
  C1 as stated fails outside the range from 400 to 599: status 103 and status 600 lie
  outside [200,399], and both calls return the \<^verbatim>\<open>raw\<close> wrapper.
\<close>

theorem get_status_outside_200_399_counterexample:
  "api_get unused_repr (answers (http_response 103 None ''hint'' (Inl ''no json''))) ''/'' None
     = Inr (PyDict [(''raw'', PyStr ''hint'')])
   \<and> api_get unused_repr (answers (http_response 600 None ''odd'' (Inl ''no json''))) ''/'' None
     = Inr (PyDict [(''raw'', PyStr ''odd'')])"
  by (simp add: api_get_def answers_def http_response_def raise_for_status_def content_type_def)

subsection \<open>C2: the message of an error response\<close>

text \<open>
  C2. When the content type contains \<^verbatim>\<open>application/json\<close> and \<^verbatim>\<open>resp.json()\<close>
  is a dict with the key \<^verbatim>\<open>detail\<close>, the extracted detail is \<^verbatim>\<open>str\<close> of that
  value, so the string itself when the value is a string; in every other case it is the
  stripped text of the response, or \<^verbatim>\<open>HTTP <status_code>\<close> when the stripped text is
  empty. For every response with a status from 400 to 599 the raised failure carries the
  extracted detail as its message.
\<close>

theorem extract_detail_policy:
  "(sublist ''application/json'' (content_type resp) \<and> resp_json resp = Inr (PyDict kvs) \<and>
      map_of kvs ''detail'' = Some d \<longrightarrow>
      api_extract_detail rpr resp = py_str rpr d)
   \<and> (sublist ''application/json'' (content_type resp) \<and> resp_json resp = Inr (PyDict kvs) \<and>
      map_of kvs ''detail'' = Some (PyStr msg) \<longrightarrow>
      api_extract_detail rpr resp = msg)
   \<and> (\<not> (sublist ''application/json'' (content_type resp) \<and>
           (\<exists>kvs d. resp_json resp = Inr (PyDict kvs) \<and> map_of kvs ''detail'' = Some d)) \<longrightarrow>
      api_extract_detail rpr resp =
        (if strip (resp_text resp) = [] then ''HTTP '' @ int_str (resp_status_code resp)
         else strip (resp_text resp)))
   \<and> (net (request_of path params) = Inr resp \<and>
      400 \<le> resp_status_code resp \<and> resp_status_code resp < 600 \<longrightarrow>
      (\<exists>c. api_get rpr net path params =
         Inl (Raised c (api_extract_detail rpr resp) (Some (resp_status_code resp)))))"
proof (intro conjI impI)
  assume "sublist ''application/json'' (content_type resp) \<and> resp_json resp = Inr (PyDict kvs) \<and>
      map_of kvs ''detail'' = Some d"
  then show "api_extract_detail rpr resp = py_str rpr d"
    by (simp add: extract_detail_found)
next
  assume "sublist ''application/json'' (content_type resp) \<and> resp_json resp = Inr (PyDict kvs) \<and>
      map_of kvs ''detail'' = Some (PyStr msg)"
  then have "api_extract_detail rpr resp = py_str rpr (PyStr msg)"
    by (simp add: extract_detail_found)
  then show "api_extract_detail rpr resp = msg"
    by (simp add: py_str_def)
next
  assume "\<not> (sublist ''application/json'' (content_type resp) \<and>
           (\<exists>kvs d. resp_json resp = Inr (PyDict kvs) \<and> map_of kvs ''detail'' = Some d))"
  then show "api_extract_detail rpr resp =
        (if strip (resp_text resp) = [] then ''HTTP '' @ int_str (resp_status_code resp)
         else strip (resp_text resp))"
    by (rule extract_detail_fallback)
next
  assume h: "net (request_of path params) = Inr resp \<and>
      400 \<le> resp_status_code resp \<and> resp_status_code resp < 600"
  then have "net (request_of path params) = Inr resp"
    by simp
  from api_get_response [of net path params resp rpr, OF this] h
  show "\<exists>c. api_get rpr net path params =
         Inl (Raised c (api_extract_detail rpr resp) (Some (resp_status_code resp)))"
    by auto
qed

text \<open>
  The instances: a 400 whose JSON body is a dict with a string detail; a 404 declared as
  JSON whose body does not parse, and whose text has whitespace around it; a 404 with
  only whitespace as its text; and the failure raised for the first of them.
\<close>

theorem extract_detail_policy_witness:
  \<open>api_extract_detail unused_repr
       (http_response 400 (Some ''application/json'') ''{"detail": "start_year out of bounds"}''
          (Inr (PyDict [(''detail'', PyStr ''start_year out of bounds'')])))
     = ''start_year out of bounds''
   \<and> api_extract_detail unused_repr
       (http_response 404 (Some ''application/json'') ''  Not Found  '' (Inl ''Expecting value''))
     = ''Not Found''
   \<and> api_extract_detail unused_repr (http_response 404 None ''   '' (Inl ''Expecting value''))
     = ''HTTP 404''
   \<and> (\<exists>c. api_get unused_repr
         (answers (http_response 400 (Some ''application/json'') ''{"detail": "start_year out of bounds"}''
            (Inr (PyDict [(''detail'', PyStr ''start_year out of bounds'')]))))
         ''/data'' None
       = Inl (Raised c ''start_year out of bounds'' (Some 400)))\<close>
proof -
  let ?kvs = "[(''detail'', PyStr ''start_year out of bounds'')]"
  let ?r1 = \<open>http_response 400 (Some ''application/json'') ''{"detail": "start_year out of bounds"}''
          (Inr (PyDict ?kvs))\<close>
  let ?r2 = "http_response 404 (Some ''application/json'') ''  Not Found  '' (Inl ''Expecting value'')"
  let ?r3 = "http_response 404 None ''   '' (Inl ''Expecting value'')"
  have n404: "int_str 404 = ''404''"
    by code_simp
  have c1: "sublist ''application/json'' (content_type ?r1) \<and> resp_json ?r1 = Inr (PyDict ?kvs) \<and>
      map_of ?kvs ''detail'' = Some (PyStr ''start_year out of bounds'')"
    by (simp add: http_response_def content_type_def)
  have c2: "\<not> (sublist ''application/json'' (content_type ?r2) \<and>
           (\<exists>kvs d. resp_json ?r2 = Inr (PyDict kvs) \<and> map_of kvs ''detail'' = Some d))"
    by (simp add: http_response_def)
  have c3: "\<not> (sublist ''application/json'' (content_type ?r3) \<and>
           (\<exists>kvs d. resp_json ?r3 = Inr (PyDict kvs) \<and> map_of kvs ''detail'' = Some d))"
    by (simp add: http_response_def)
  have c4: "answers ?r1 (request_of ''/data'' None) = Inr ?r1 \<and>
      400 \<le> resp_status_code ?r1 \<and> resp_status_code ?r1 < 600"
    by (simp add: answers_def http_response_def)
  have t2: "strip (resp_text ?r2) = ''Not Found''" "strip (resp_text ?r3) = []"
    "resp_status_code ?r3 = 404" "resp_status_code ?r1 = 400"
    by (simp_all add: http_response_def strip_def isspace_def)
  note p1 = extract_detail_policy [of ?r1 ?kvs "PyStr ''start_year out of bounds''" unused_repr
      "''start_year out of bounds''" "answers ?r1" "''/data''" None]
  note p2 = extract_detail_policy [of ?r2 ?kvs "PyStr ''start_year out of bounds''" unused_repr
      "''start_year out of bounds''" "answers ?r2" "''/data''" None]
  note p3 = extract_detail_policy [of ?r3 ?kvs "PyStr ''start_year out of bounds''" unused_repr
      "''start_year out of bounds''" "answers ?r3" "''/data''" None]
  have e1: "api_extract_detail unused_repr ?r1 = ''start_year out of bounds''"
    using p1 c1 by blast
  have e2: "api_extract_detail unused_repr ?r2 = ''Not Found''"
    using p2 c2 t2 by simp
  have e3: "api_extract_detail unused_repr ?r3 = ''HTTP 404''"
    using p3 c3 t2 n404 by simp
  have e4: "\<exists>c. api_get unused_repr (answers ?r1) ''/data'' None
       = Inl (Raised c ''start_year out of bounds'' (Some 400))"
    using p1 c4 e1 t2 by simp
  from e1 e2 e3 e4 show ?thesis
    by blast
qed

subsection \<open>C3: what a successful call returns\<close>

text \<open>
  C3. For a response with a 2xx status: when the content type starts with
  \<^verbatim>\<open>application/json\<close> and \<^verbatim>\<open>resp.json()\<close> gives a value, the call returns that
  value unchanged; when the content type does not start so, the call returns exactly
  the dict \<^verbatim>\<open>{"raw": resp.text}\<close>.
\<close>

theorem get_success_payload:
  assumes "net (request_of path params) = Inr resp"
    and "200 \<le> resp_status_code resp" and "resp_status_code resp < 300"
  shows "(prefix ''application/json'' (content_type resp) \<and> resp_json resp = Inr v \<longrightarrow>
            api_get rpr net path params = Inr v)
       \<and> (\<not> prefix ''application/json'' (content_type resp) \<longrightarrow>
            api_get rpr net path params = Inr (PyDict [(''raw'', PyStr (resp_text resp))]))"
  using api_get_response [of net path params resp rpr] assms
  by (simp add: decoded_def)

text \<open>
  The instances: a 200 with a JSON list of country codes, and a 200 that is plain text.
\<close>

theorem get_success_payload_witness:
  \<open>api_get unused_repr
       (answers (http_response 200 (Some ''application/json; charset=utf-8'') ''["AFG", "ALB"]''
          (Inr (PyList [PyStr ''AFG'', PyStr ''ALB'']))))
       ''/country-codes'' None
     = Inr (PyList [PyStr ''AFG'', PyStr ''ALB''])
   \<and> api_get unused_repr
       (answers (http_response 200 (Some ''text/plain'') ''hello'' (Inl ''Expecting value'')))
       ''/'' None
     = Inr (PyDict [(''raw'', PyStr ''hello'')])\<close>
proof -
  let ?r1 = \<open>http_response 200 (Some ''application/json; charset=utf-8'') ''["AFG", "ALB"]''
          (Inr (PyList [PyStr ''AFG'', PyStr ''ALB'']))\<close>
  let ?r2 = "http_response 200 (Some ''text/plain'') ''hello'' (Inl ''Expecting value'')"
  have a: "answers r (request_of p None) = Inr r" for r p
    by (simp add: answers_def)
  have s1: "200 \<le> resp_status_code ?r1" "resp_status_code ?r1 < 300"
    and s2: "200 \<le> resp_status_code ?r2" "resp_status_code ?r2 < 300"
    by (simp_all add: http_response_def)
  have c1: "prefix ''application/json'' (content_type ?r1) \<and>
      resp_json ?r1 = Inr (PyList [PyStr ''AFG'', PyStr ''ALB''])"
    by (simp add: http_response_def content_type_def)
  have c2: "\<not> prefix ''application/json'' (content_type ?r2)" "resp_text ?r2 = ''hello''"
    by (simp_all add: http_response_def content_type_def)
  show ?thesis
    using get_success_payload [of "answers ?r1" "''/country-codes''" None ?r1
        "PyList [PyStr ''AFG'', PyStr ''ALB'']" unused_repr, OF a s1]
      get_success_payload [of "answers ?r2" "''/''" None ?r2 PyNone unused_repr, OF a s2]
      c1 c2
    by simp
qed

subsection \<open>C4: a JSON content type over a body that does not parse\<close>

text \<open>
  C4 asks that a 2xx response declared as JSON whose body does not parse fail with the
  base \<open>MacroAPIError\<close>. At a 200 with content type \<^verbatim>\<open>application/json\<close> and an
  HTML body the call raises the decoder's own exception instead, which
  \<^verbatim>\<open>except MacroAPIError\<close> does not catch.
\<close>

theorem get_unparsable_json_body:
  "api_get unused_repr
     (answers (http_response 200 (Some ''application/json'') ''<html>oops</html>'' (Inl ''Expecting value'')))
     ''/indicators'' None
   = Inl (JSONDecodeError ''Expecting value'')
   \<and> caught_by MacroAPIError (JSONDecodeError ''Expecting value'') = False
   \<and> failure_kind (api_get unused_repr
     (answers (http_response 200 (Some ''application/json'') ''<html>oops</html>'' (Inl ''Expecting value'')))
     ''/indicators'' None) = None"
  by (simp add: api_get_def answers_def http_response_def raise_for_status_def content_type_def)

subsection \<open>C5: a transport failure\<close>

text \<open>
  C5. When \<^verbatim>\<open>requests.get\<close> raises, the call raises the base \<open>MacroAPIError\<close>
  itself, with no status code, and with the message
  \<^verbatim>\<open>Network error calling <url>: <the transport's message>\<close>, which contains both the
  attempted URL and the transport's message.
\<close>

theorem get_transport_failure:
  assumes "net (request_of path params) = Inl e"
  shows "api_get rpr net path params =
           Inl (Raised MacroAPIError
                  (''Network error calling https://macro-indicators.fly.dev'' @ path @ '': '' @ e) None)
       \<and> sublist (''https://macro-indicators.fly.dev'' @ path)
            (''Network error calling https://macro-indicators.fly.dev'' @ path @ '': '' @ e)
       \<and> sublist e (''Network error calling https://macro-indicators.fly.dev'' @ path @ '': '' @ e)"
proof (intro conjI)
  show "api_get rpr net path params =
           Inl (Raised MacroAPIError
                  (''Network error calling https://macro-indicators.fly.dev'' @ path @ '': '' @ e) None)"
    using api_get_transport [of net path params e rpr] assms
    by (simp add: BASE_URL_def)
next
  have "''Network error calling https://macro-indicators.fly.dev'' @ path @ '': '' @ e
      = ''Network error calling '' @ (''https://macro-indicators.fly.dev'' @ path) @ ('': '' @ e)"
    by simp
  then show "sublist (''https://macro-indicators.fly.dev'' @ path)
            (''Network error calling https://macro-indicators.fly.dev'' @ path @ '': '' @ e)"
    unfolding sublist_def by blast
next
  have "''Network error calling https://macro-indicators.fly.dev'' @ path @ '': '' @ e
      = (''Network error calling https://macro-indicators.fly.dev'' @ path @ '': '') @ e @ []"
    by simp
  then show "sublist e (''Network error calling https://macro-indicators.fly.dev'' @ path @ '': '' @ e)"
    unfolding sublist_def by blast
qed

text \<open>The instance: the service cannot be reached while the indicators are fetched.\<close>

theorem get_transport_failure_witness:
  "api_get unused_repr (unreachable ''Connection refused'') ''/indicators'' None
     = Inl (Raised MacroAPIError
         ''Network error calling https://macro-indicators.fly.dev/indicators: Connection refused'' None)"
proof -
  have a: "unreachable ''Connection refused'' (request_of ''/indicators'' None) = Inl ''Connection refused''"
    by (simp add: unreachable_def)
  show ?thesis
    using get_transport_failure [of "unreachable ''Connection refused''" "''/indicators''" None
        "''Connection refused''" unused_repr, OF a]
    by simp
qed

subsection \<open>C6: the public functions\<close>

text \<open>
  C6. Each public function is \<^verbatim>\<open>_get\<close> at its path: \<^verbatim>\<open>root\<close> at \<^verbatim>\<open>/\<close>,
  \<^verbatim>\<open>get_country_codes\<close> at \<^verbatim>\<open>/country-codes\<close>, \<^verbatim>\<open>get_countries_with_names\<close>
  at \<^verbatim>\<open>/countries\<close>, \<^verbatim>\<open>get_indicators\<close> at \<^verbatim>\<open>/indicators\<close>, all with no
  parameters, and \<^verbatim>\<open>get_country_data\<close> at \<^verbatim>\<open>/data\<close> with its four arguments as
  the parameters. The result of \<^verbatim>\<open>_get\<close> is fixed by what the network answers to one
  request, the one whose URL is \<^verbatim>\<open>https://macro-indicators.fly.dev\<close> followed by the
  path, with the parameters given and the timeout 30: a failure there is the transport
  failure of the call, naming that URL, and a response there is the response the call
  classifies and decodes. What the network answers to any other request has no part in it.
\<close>

theorem public_functions_are_get:
  "root rpr net = api_get rpr net ''/'' None
   \<and> get_country_codes rpr net = api_get rpr net ''/country-codes'' None
   \<and> get_countries_with_names rpr net = api_get rpr net ''/countries'' None
   \<and> get_indicators rpr net = api_get rpr net ''/indicators'' None
   \<and> get_country_data rpr net country_code indicator start_year end_year =
       api_get rpr net ''/data''
         (Some [(''country_code'', PyStr country_code), (''indicator'', PyStr indicator),
                (''start_year'', PyInt start_year), (''end_year'', PyInt end_year)])
   \<and> (net \<lparr>req_url = ''https://macro-indicators.fly.dev'' @ path, req_params = params, req_timeout = 30\<rparr>
        = Inl e \<longrightarrow>
      api_get rpr net path params =
        Inl (Raised MacroAPIError
               (''Network error calling https://macro-indicators.fly.dev'' @ path @ '': '' @ e) None))
   \<and> (net \<lparr>req_url = ''https://macro-indicators.fly.dev'' @ path, req_params = params, req_timeout = 30\<rparr>
        = Inr resp \<longrightarrow>
      api_get rpr net path params =
        (if resp_status_code resp = 400 then
           Inl (Raised BadRequest (api_extract_detail rpr resp) (Some 400))
         else if resp_status_code resp = 404 then
           Inl (Raised NotFound (api_extract_detail rpr resp) (Some 404))
         else if 400 \<le> resp_status_code resp \<and> resp_status_code resp < 600 then
           Inl (Raised MacroAPIError (api_extract_detail rpr resp) (Some (resp_status_code resp)))
         else decoded resp))"
proof (intro conjI impI)
  assume "net \<lparr>req_url = ''https://macro-indicators.fly.dev'' @ path, req_params = params, req_timeout = 30\<rparr>
        = Inl e"
  then have "net (request_of path params) = Inl e"
    by (simp add: request_of_def)
  from api_get_transport [of net path params e rpr, OF this]
  show "api_get rpr net path params =
        Inl (Raised MacroAPIError
               (''Network error calling https://macro-indicators.fly.dev'' @ path @ '': '' @ e) None)"
    by (simp add: BASE_URL_def)
next
  assume "net \<lparr>req_url = ''https://macro-indicators.fly.dev'' @ path, req_params = params, req_timeout = 30\<rparr>
        = Inr resp"
  then have "net (request_of path params) = Inr resp"
    by (simp add: request_of_def)
  from api_get_response [of net path params resp rpr, OF this]
  show "api_get rpr net path params =
        (if resp_status_code resp = 400 then
           Inl (Raised BadRequest (api_extract_detail rpr resp) (Some 400))
         else if resp_status_code resp = 404 then
           Inl (Raised NotFound (api_extract_detail rpr resp) (Some 404))
         else if 400 \<le> resp_status_code resp \<and> resp_status_code resp < 600 then
           Inl (Raised MacroAPIError (api_extract_detail rpr resp) (Some (resp_status_code resp)))
         else decoded resp)" .
qed (simp_all add: root_def get_country_codes_def get_countries_with_names_def get_indicators_def
    get_country_data_def)

text \<open>
  The instances. A network that serves the Swedish M2 series at exactly the request
  \<^verbatim>\<open>https://macro-indicators.fly.dev/data\<close> with the four parameters and the timeout
  30, and answers every other request with a failure: \<^verbatim>\<open>get_country_data\<close> returns the
  series. A network that refuses exactly the request \<^verbatim>\<open>https://macro-indicators.fly.dev/\<close>
  with no parameters and the timeout 30: \<^verbatim>\<open>root\<close> raises the transport failure for
  that URL.
\<close>

theorem public_functions_are_get_witness:
  "get_country_data unused_repr
     (answers_only
        \<lparr>req_url = ''https://macro-indicators.fly.dev/data'',
         req_params = Some [(''country_code'', PyStr ''SWE''), (''indicator'', PyStr ''M2_LCU''),
                            (''start_year'', PyInt 2010), (''end_year'', PyInt 2015)],
         req_timeout = 30\<rparr>
        (http_response 200 (Some ''application/json'') ''...''
           (Inr (PyDict [(''country_name'', PyStr ''Sweden''), (''years'', PyList [PyInt 2010])]))))
     ''SWE'' ''M2_LCU'' 2010 2015
   = Inr (PyDict [(''country_name'', PyStr ''Sweden''), (''years'', PyList [PyInt 2010])])
   \<and> root unused_repr (unreachable ''Connection refused'')
   = Inl (Raised MacroAPIError
        ''Network error calling https://macro-indicators.fly.dev/: Connection refused'' None)"
proof -
  let ?params = "Some [(''country_code'', PyStr ''SWE''), (''indicator'', PyStr ''M2_LCU''),
                            (''start_year'', PyInt 2010), (''end_year'', PyInt 2015)]"
  let ?rq = "\<lparr>req_url = ''https://macro-indicators.fly.dev/data'', req_params = ?params, req_timeout = 30\<rparr>"
  let ?v = "PyDict [(''country_name'', PyStr ''Sweden''), (''years'', PyList [PyInt 2010])]"
  let ?r = "http_response 200 (Some ''application/json'') ''...'' (Inr ?v)"
  note t1 = public_functions_are_get [of unused_repr "answers_only ?rq ?r" "''SWE''" "''M2_LCU''" 2010 2015
      "''/data''" ?params "''Connection refused''" ?r]
  note t2 = public_functions_are_get [of unused_repr "unreachable ''Connection refused''"
      "''SWE''" "''M2_LCU''" 2010 2015 "''/''" None "''Connection refused''" ?r]
  have served: "answers_only ?rq ?r \<lparr>req_url = ''https://macro-indicators.fly.dev'' @ ''/data'',
        req_params = ?params, req_timeout = 30\<rparr> = Inr ?r"
    by (simp add: answers_only_def)
  have refused: "unreachable ''Connection refused'' \<lparr>req_url = ''https://macro-indicators.fly.dev'' @ ''/'',
        req_params = None, req_timeout = 30\<rparr> = Inl ''Connection refused''"
    by (simp add: unreachable_def)
  have ev: "resp_status_code ?r = 200" "decoded ?r = Inr ?v"
    by (simp_all add: http_response_def decoded_def content_type_def)
  from t1 served have "get_country_data unused_repr (answers_only ?rq ?r) ''SWE'' ''M2_LCU'' 2010 2015
      = (if resp_status_code ?r = 400 then
           Inl (Raised BadRequest (api_extract_detail unused_repr ?r) (Some 400))
         else if resp_status_code ?r = 404 then
           Inl (Raised NotFound (api_extract_detail unused_repr ?r) (Some 404))
         else if 400 \<le> resp_status_code ?r \<and> resp_status_code ?r < 600 then
           Inl (Raised MacroAPIError (api_extract_detail unused_repr ?r) (Some (resp_status_code ?r)))
         else decoded ?r)"
    by metis
  then have w1: "get_country_data unused_repr (answers_only ?rq ?r) ''SWE'' ''M2_LCU'' 2010 2015 = Inr ?v"
    by (simp add: ev)
  from t2 refused have "root unused_repr (unreachable ''Connection refused'')
      = Inl (Raised MacroAPIError
          (''Network error calling https://macro-indicators.fly.dev'' @ ''/'' @ '': '' @ ''Connection refused'') None)"
    by metis
  then have w2: "root unused_repr (unreachable ''Connection refused'')
      = Inl (Raised MacroAPIError
          ''Network error calling https://macro-indicators.fly.dev/: Connection refused'' None)"
    by simp
  from w1 w2 show ?thesis
    by blast
qed

subsection \<open>C7: one base class over two specializations\<close>

text \<open>
  C7. \<open>BadRequest\<close> and \<open>NotFound\<close> are subclasses of \<open>MacroAPIError\<close>, they are its only
  proper subclasses, and neither is a subclass of the other. Every failure raised by
  classification, that is on a transport failure or on a status from 400 to 599, is an
  instance of one of the three classes with a message and an optional status code, and
  \<^verbatim>\<open>except MacroAPIError\<close> catches it; so does it catch every instance of the three
  classes that \<^verbatim>\<open>_get\<close> raises at all.
\<close>

theorem failures_are_MacroAPIError:
  "issubclass BadRequest MacroAPIError
   \<and> issubclass NotFound MacroAPIError
   \<and> {c. issubclass c MacroAPIError} = {MacroAPIError, BadRequest, NotFound}
   \<and> issubclass BadRequest NotFound = False
   \<and> issubclass NotFound BadRequest = False
   \<and> (net (request_of path params) = Inl e \<or>
       (net (request_of path params) = Inr resp \<and>
        400 \<le> resp_status_code resp \<and> resp_status_code resp < 600) \<longrightarrow>
       (\<exists>c m s. api_get rpr net path params = Inl (Raised c m s) \<and>
          caught_by MacroAPIError (Raised c m s)))
   \<and> (api_get rpr net path params = Inl (Raised c' m' s') \<longrightarrow>
        caught_by MacroAPIError (Raised c' m' s'))"
proof (intro conjI impI)
  show "{c. issubclass c MacroAPIError} = {MacroAPIError, BadRequest, NotFound}"
  proof (rule set_eqI)
    fix c
    show "(c \<in> {c. issubclass c MacroAPIError}) = (c \<in> {MacroAPIError, BadRequest, NotFound})"
      by (cases c) (simp_all add: issubclass_def)
  qed
next
  assume h: "net (request_of path params) = Inl e \<or>
       (net (request_of path params) = Inr resp \<and>
        400 \<le> resp_status_code resp \<and> resp_status_code resp < 600)"
  then show "\<exists>c m s. api_get rpr net path params = Inl (Raised c m s) \<and>
          caught_by MacroAPIError (Raised c m s)"
  proof
    assume "net (request_of path params) = Inl e"
    then show ?thesis
      using api_get_transport [of net path params e rpr]
      by (simp add: issubclass_def)
  next
    assume r: "net (request_of path params) = Inr resp \<and>
        400 \<le> resp_status_code resp \<and> resp_status_code resp < 600"
    then have "net (request_of path params) = Inr resp"
      by simp
    from api_get_response [of net path params resp rpr, OF this] r show ?thesis
      by (simp add: issubclass_def)
  qed
next
  assume g: "api_get rpr net path params = Inl (Raised c' m' s')"
  show "caught_by MacroAPIError (Raised c' m' s')"
  proof (cases "net (request_of path params)")
    case (Inl e0)
    from api_get_transport [of net path params e0 rpr, OF Inl] g show ?thesis
      by (auto simp: issubclass_def)
  next
    case (Inr r0)
    from api_get_response [of net path params r0 rpr, OF Inr] g show ?thesis
      by (auto simp: issubclass_def decoded_def split: if_splits sum.splits)
  qed
qed (simp_all add: issubclass_def)

text \<open>
  The instances: an unreachable service and a 404, each caught by
  \<^verbatim>\<open>except MacroAPIError\<close>.
\<close>

theorem failures_are_MacroAPIError_witness:
  "(\<exists>c m s. api_get unused_repr (unreachable ''timed out'') ''/countries'' None = Inl (Raised c m s) \<and>
       caught_by MacroAPIError (Raised c m s))
   \<and> (\<exists>c m s. api_get unused_repr (answers (http_response 404 None ''missing'' (Inl ''no json'')))
         ''/countries'' None = Inl (Raised c m s) \<and>
       caught_by MacroAPIError (Raised c m s))
   \<and> caught_by MacroAPIError (Raised NotFound ''missing'' (Some 404))"
proof -
  let ?r = "http_response 404 None ''missing'' (Inl ''no json'')"
  have a: "unreachable ''timed out'' (request_of ''/countries'' None) = Inl ''timed out'' \<or>
       (unreachable ''timed out'' (request_of ''/countries'' None) = Inr ?r \<and>
        400 \<le> resp_status_code ?r \<and> resp_status_code ?r < 600)"
    by (simp add: unreachable_def)
  have b: "answers ?r (request_of ''/countries'' None) = Inl ''timed out'' \<or>
       (answers ?r (request_of ''/countries'' None) = Inr ?r \<and>
        400 \<le> resp_status_code ?r \<and> resp_status_code ?r < 600)"
    by (simp add: answers_def http_response_def)
  have g: "api_get unused_repr (answers ?r) ''/countries'' None = Inl (Raised NotFound ''missing'' (Some 404))"
    by (simp add: api_get_def answers_def http_response_def api_extract_detail_def content_type_def
        str_or_def strip_def isspace_def)
  note t1 = failures_are_MacroAPIError [of "unreachable ''timed out''" "''/countries''" None
      "''timed out''" ?r unused_repr NotFound "''missing''" "Some 404"]
  note t2 = failures_are_MacroAPIError [of "answers ?r" "''/countries''" None
      "''timed out''" ?r unused_repr NotFound "''missing''" "Some 404"]
  from t1 a have w1: "\<exists>c m s. api_get unused_repr (unreachable ''timed out'') ''/countries'' None
      = Inl (Raised c m s) \<and> caught_by MacroAPIError (Raised c m s)"
    by blast
  from t2 b have w2: "\<exists>c m s. api_get unused_repr (answers ?r) ''/countries'' None
      = Inl (Raised c m s) \<and> caught_by MacroAPIError (Raised c m s)"
    by blast
  from t2 g have w3: "caught_by MacroAPIError (Raised NotFound ''missing'' (Some 404))"
    by blast
  from w1 w2 w3 show ?thesis
    by blast
qed

subsection \<open>C9: the class of a failure and the status code\<close>




subsection \<open>C10: every status below 400 takes the decoding path\<close>




end
